theory Spec2Isabelle
  imports Complex_Main
begin

section \<open>Python values used by the service\<close>

text \<open>
  Timestamps are the readings of \<^verbatim>\<open>time.time()\<close>. They are modelled as real numbers:
  the code only subtracts the window from a reading and compares readings, and the
  rounding of the floating-point subtraction is abstracted.

  A Python \<^verbatim>\<open>dict\<close> keeps its keys in insertion order and holds every key once, so it
  is an association list: assignment to a present key replaces the value in place, and
  assignment to a missing key appends the pair.
\<close>

type_synonym timestamp = real

fun dict_get :: "('k \<times> 'v) list \<Rightarrow> 'k \<Rightarrow> 'v option" where
  "dict_get [] k = None"
| "dict_get ((k', v) # d) k = (if k' = k then Some v else dict_get d k)"

fun dict_set :: "('k \<times> 'v) list \<Rightarrow> 'k \<Rightarrow> 'v \<Rightarrow> ('k \<times> 'v) list" where
  "dict_set [] k v = [(k, v)]"
| "dict_set ((k', v') # d) k v =
     (if k' = k then (k, v) # d else (k', v') # dict_set d k v)"

text \<open>
  \<^verbatim>\<open>_auth_failures\<close> is a \<^verbatim>\<open>defaultdict(list)\<close>: reading a missing key first stores the
  empty list under that key and then returns it. \<open>defaultdict_getitem\<close> returns the value
  read together with the dictionary after the read.
\<close>

type_synonym tracker = "(string \<times> timestamp list) list"

definition defaultdict_getitem :: "tracker \<Rightarrow> string \<Rightarrow> timestamp list \<times> tracker" where
  "defaultdict_getitem d k =
     (case dict_get d k of
        Some v \<Rightarrow> (v, d)
      | None \<Rightarrow> ([], dict_set d k []))"

section \<open>Structured log records (app/logging\_config.py)\<close>

datatype log_level = INFO | WARNING | ERROR | CRITICAL

datatype json = JStr string | JInt int | JFloat real

record log_record =
  levelname :: log_level
  message :: string
  extra :: "(string \<times> json) list"

definition event_type :: "log_record \<Rightarrow> json option" where
  "event_type r = dict_get (extra r) ''event_type''"

section \<open>Failure tracking (app/middleware.py)\<close>

definition AUTH_FAILURE_WINDOW :: int where
  "AUTH_FAILURE_WINDOW = 300"

definition AUTH_FAILURE_THRESHOLD_IP :: nat where
  "AUTH_FAILURE_THRESHOLD_IP = 10"

definition AUTH_FAILURE_THRESHOLD_GLOBAL :: nat where
  "AUTH_FAILURE_THRESHOLD_GLOBAL = 20"

text \<open>The two \<^verbatim>\<open>logger.critical\<close> calls of \<^verbatim>\<open>_track_auth_failure\<close>.\<close>

definition brute_force_record :: "string \<Rightarrow> nat \<Rightarrow> log_record" where
  "brute_force_record client_ip failure_count =
     \<lparr> levelname = CRITICAL,
       message = ''Possible brute force attack detected'',
       extra = [(''event_type'', JStr ''brute_force_detected''),
                (''client_ip'', JStr client_ip),
                (''failure_count'', JInt (int failure_count)),
                (''window_seconds'', JInt AUTH_FAILURE_WINDOW)] \<rparr>"

definition spray_record :: "nat \<Rightarrow> log_record" where
  "spray_record total_failures =
     \<lparr> levelname = CRITICAL,
       message = ''Possible credential spray attack detected'',
       extra = [(''event_type'', JStr ''spray_attack_detected''),
                (''total_failures'', JInt (int total_failures)),
                (''window_seconds'', JInt AUTH_FAILURE_WINDOW)] \<rparr>"

text \<open>
  The generator expression of the spray detection: the whole length of every sequence
  that holds at least one timestamp newer than the cutoff.
\<close>

definition total_failures_of :: "tracker \<Rightarrow> timestamp \<Rightarrow> nat" where
  "total_failures_of d cutoff =
     sum_list (map (\<lambda>(ip, times). length times)
                   (filter (\<lambda>(ip, times). list_ex (\<lambda>t. t > cutoff) times) d))"

text \<open>
  \<^verbatim>\<open>_track_auth_failure(client_ip)\<close>. The dictionary is passed in and returned, the
  reading \<open>now\<close> of the clock is an argument, and the records logged are returned in
  the order of the calls.
\<close>

definition track_auth_failure ::
    "tracker \<Rightarrow> string \<Rightarrow> timestamp \<Rightarrow> tracker \<times> log_record list" where
  "track_auth_failure auth_failures client_ip now =
     (let cutoff = now - of_int AUTH_FAILURE_WINDOW;
          (old, d0) = defaultdict_getitem auth_failures client_ip;
          d1 = dict_set d0 client_ip (filter (\<lambda>t. t > cutoff) old);
          (kept, d2) = defaultdict_getitem d1 client_ip;
          d3 = dict_set d2 client_ip (kept @ [now]);
          (times, d4) = defaultdict_getitem d3 client_ip;
          brute = (if length times \<ge> AUTH_FAILURE_THRESHOLD_IP
                   then [brute_force_record client_ip (length times)] else []);
          total_failures = total_failures_of d4 cutoff;
          spray = (if total_failures \<ge> AUTH_FAILURE_THRESHOLD_GLOBAL
                   then [spray_record total_failures] else [])
      in (d4, brute @ spray))"

text \<open>The sequence held for a source, empty when the source is unknown.\<close>

definition failures_of :: "tracker \<Rightarrow> string \<Rightarrow> timestamp list" where
  "failures_of d k = (case dict_get d k of Some v \<Rightarrow> v | None \<Rightarrow> [])"

definition is_brute_force :: "log_record \<Rightarrow> bool" where
  "is_brute_force r = (event_type r = Some (JStr ''brute_force_detected''))"

definition is_spray :: "log_record \<Rightarrow> bool" where
  "is_spray r = (event_type r = Some (JStr ''spray_attack_detected''))"


text \<open>
  A sequence of failures: \<open>record_calls\<close> runs \<^verbatim>\<open>_track_auth_failure\<close> once for each
  (source, clock reading) pair, in order, and returns the final dictionary with the
  records each call logged.
\<close>

fun record_calls ::
    "tracker \<Rightarrow> (string \<times> timestamp) list \<Rightarrow> tracker \<times> log_record list list" where
  "record_calls d [] = (d, [])"
| "record_calls d ((ip, now) # calls) =
     (let (d', logs) = track_auth_failure d ip now;
          (d'', rest) = record_calls d' calls
      in (d'', logs # rest))"

text \<open>
  The aggregate as the specification words it: the sum of the lengths of all sequences
  after pruning each sequence against the cutoff.
\<close>

definition spec_pruned_aggregate :: "tracker \<Rightarrow> timestamp \<Rightarrow> nat" where
  "spec_pruned_aggregate d cutoff =
     sum_list (map (\<lambda>(ip, times). length (filter (\<lambda>t. t > cutoff) times)) d)"

section \<open>Request instrumentation (app/middleware.py)\<close>

text \<open>
  Starlette keeps the headers of a message as a list of (name, value) pairs with the
  names in lower case (ASGI delivers them so). \<^verbatim>\<open>Headers.get\<close> lowers the key and returns
  the value of the first pair of that name; \<^verbatim>\<open>MutableHeaders.__setitem__\<close> lowers the
  key, overwrites the first pair of that name and deletes the others, or appends the
  pair when there is none.
\<close>

definition lower_char :: "char \<Rightarrow> char" where
  "lower_char c =
     (let n = (of_char c :: nat) in if 65 \<le> n \<and> n \<le> 90 then char_of (n + 32) else c)"

definition lower :: "string \<Rightarrow> string" where
  "lower s = map lower_char s"

definition headers_get :: "(string \<times> string) list \<Rightarrow> string \<Rightarrow> string \<Rightarrow> string" where
  "headers_get hs key dflt = (case dict_get hs (lower key) of Some v \<Rightarrow> v | None \<Rightarrow> dflt)"

fun headers_put :: "(string \<times> string) list \<Rightarrow> string \<Rightarrow> string \<Rightarrow> (string \<times> string) list" where
  "headers_put [] k v = [(k, v)]"
| "headers_put ((k', v') # hs) k v =
     (if k' = k then (k, v) # filter (\<lambda>(a, b). a \<noteq> k) hs
      else (k', v') # headers_put hs k v)"

definition headers_setitem ::
    "(string \<times> string) list \<Rightarrow> string \<Rightarrow> string \<Rightarrow> (string \<times> string) list" where
  "headers_setitem hs key v = headers_put hs (lower key) v"

record request =
  req_method :: string
  req_path :: string
  req_headers :: "(string \<times> string) list"
  req_client_host :: "string option"
  req_state_request_id :: "string option"

record response =
  status_code :: int
  resp_headers :: "(string \<times> string) list"
  resp_body :: string

text \<open>
  The source address of a request, lines 30 to 32 of \<^verbatim>\<open>dispatch\<close>:
  \<^verbatim>\<open>request.headers.get("X-Forwarded-For", request.client.host if request.client else "unknown")\<close>.
\<close>

definition client_ip_of :: "request \<Rightarrow> string" where
  "client_ip_of request =
     headers_get (req_headers request) ''X-Forwarded-For''
       (case req_client_host request of Some host \<Rightarrow> host | None \<Rightarrow> ''unknown'')"

definition log_data_of :: "string \<Rightarrow> request \<Rightarrow> response \<Rightarrow> string \<Rightarrow> real \<Rightarrow> (string \<times> json) list" where
  "log_data_of request_id request response client_ip duration_ms =
     [(''request_id'', JStr request_id),
      (''method'', JStr (req_method request)),
      (''path'', JStr (req_path request)),
      (''status_code'', JInt (status_code response)),
      (''client_ip'', JStr client_ip),
      (''user_agent'', JStr (headers_get (req_headers request) ''User-Agent'' ''unknown'')),
      (''response_time_ms'', JFloat duration_ms),
      (''event_type'', JStr ''http_request'')]"

text \<open>
  \<^verbatim>\<open>RequestLoggingMiddleware.dispatch\<close>. The inputs that the code reads from its
  environment are arguments: \<open>request_id\<close> is the string of \<^verbatim>\<open>uuid.uuid4()\<close>,
  \<open>duration_ms\<close> the rounded difference of the two readings of the monotonic clock, and
  \<open>now\<close> the reading of \<^verbatim>\<open>time.time()\<close> in \<^verbatim>\<open>_track_auth_failure\<close>. \<open>call_next\<close> is the
  wrapped handler: it returns a response (\<open>Inr\<close>) or raises (\<open>Inl\<close>). There is no
  \<^verbatim>\<open>try\<close> in \<^verbatim>\<open>dispatch\<close>, so an exception of the handler leaves the function at line 35.
  The result is the outcome, the failure dictionary and the records logged, in order.
\<close>

definition dispatch ::
    "tracker \<Rightarrow> string \<Rightarrow> real \<Rightarrow> timestamp \<Rightarrow> request \<Rightarrow> (request \<Rightarrow> 'e + response)
       \<Rightarrow> ('e + response) \<times> tracker \<times> log_record list" where
  "dispatch auth_failures request_id duration_ms now request0 call_next =
     (let request = request0\<lparr>req_state_request_id := Some request_id\<rparr>;
          client_ip = client_ip_of request
      in case call_next request of
           Inl e \<Rightarrow> (Inl e, auth_failures, [])
         | Inr response \<Rightarrow>
             (let log_data = log_data_of request_id request response client_ip duration_ms;
                  (auth_failures', logs) =
                    (if status_code response = 401 \<or> status_code response = 403 then
                       (let log_data' = dict_set log_data ''event_type'' (JStr ''auth_failure'');
                            (d, alerts) = track_auth_failure auth_failures client_ip now
                        in (d, \<lparr>levelname = WARNING, message = ''Authentication failure'',
                                 extra = log_data'\<rparr> # alerts))
                     else if status_code response \<ge> 500 then
                       (let log_data' = dict_set log_data ''event_type'' (JStr ''server_error'')
                        in (auth_failures,
                            [\<lparr>levelname = ERROR, message = ''Server error'', extra = log_data'\<rparr>]))
                     else if status_code response \<ge> 400 then
                       (auth_failures,
                        [\<lparr>levelname = WARNING, message = ''Client error'', extra = log_data\<rparr>])
                     else
                       (auth_failures,
                        [\<lparr>levelname = INFO, message = ''Request completed'', extra = log_data\<rparr>]))
              in (Inr (response\<lparr>resp_headers :=
                         headers_setitem (resp_headers response) ''X-Request-ID'' request_id\<rparr>),
                  auth_failures', logs)))"

text \<open>
  The first value of a comma-separated header, as the specification words the source
  address ("first value wins").
\<close>

definition spec_first_value :: "string \<Rightarrow> string" where
  "spec_first_value v = takeWhile (\<lambda>c. c \<noteq> CHR '','') v"

section \<open>Authentication (app/auth.py)\<close>

datatype exception = HTTPException int string | TypeError string

record APIKey =
  key_id :: int
  key_hash :: string
  name :: string
  is_active :: bool
  created_at :: timestamp

text \<open>
  \<^verbatim>\<open>hash_api_key\<close> is the hexadecimal SHA-256 digest of the key. The digest is a
  function of the standard library; it is the parameter \<open>sha256_hexdigest\<close>.
\<close>

definition hash_api_key :: "(string \<Rightarrow> string) \<Rightarrow> string \<Rightarrow> string" where
  "hash_api_key sha256_hexdigest key = sha256_hexdigest key"

text \<open>
  \<^verbatim>\<open>verify_api_key\<close>. The table \<^verbatim>\<open>api_keys\<close> is the list of its rows; the query
  filters on the hash and on \<^verbatim>\<open>is_active IS true\<close> and takes the first row.
  \<^verbatim>\<open>not api_key\<close> holds for \<^verbatim>\<open>None\<close> and for the empty string.
\<close>

definition verify_api_key ::
    "(string \<Rightarrow> string) \<Rightarrow> APIKey list \<Rightarrow> string option \<Rightarrow> exception + APIKey" where
  "verify_api_key sha256_hexdigest db api_key =
     (case api_key of
        None \<Rightarrow> Inl (HTTPException 401 ''Missing API key. Provide X-API-Key header.'')
      | Some k \<Rightarrow>
          if k = [] then Inl (HTTPException 401 ''Missing API key. Provide X-API-Key header.'')
          else
            (let h = hash_api_key sha256_hexdigest k
             in case filter (\<lambda>row. key_hash row = h \<and> is_active row) db of
                  [] \<Rightarrow> Inl (HTTPException 403 ''Invalid or deactivated API key.'')
                | db_key # rest \<Rightarrow> Inr db_key))"

text \<open>
  \<^verbatim>\<open>secrets.compare_digest\<close> on two \<^verbatim>\<open>str\<close> arguments accepts ASCII strings only and
  raises \<^verbatim>\<open>TypeError\<close> otherwise; on ASCII strings it is equality.
\<close>

definition is_ascii :: "string \<Rightarrow> bool" where
  "is_ascii s = list_all (\<lambda>c. (of_char c :: nat) < 128) s"

definition compare_digest :: "string \<Rightarrow> string \<Rightarrow> exception + bool" where
  "compare_digest a b =
     (if is_ascii a \<and> is_ascii b then Inr (a = b)
      else Inl (TypeError ''comparing strings with non-ASCII characters is not supported''))"

text \<open>
  \<^verbatim>\<open>verify_admin_secret\<close>. \<open>ADMIN_SECRET\<close> is the value read from the environment when
  the module is loaded, the empty string when the variable is unset.
\<close>

definition verify_admin_secret :: "string \<Rightarrow> string option \<Rightarrow> exception + string" where
  "verify_admin_secret ADMIN_SECRET api_key =
     (if ADMIN_SECRET = [] then
        Inl (HTTPException 503 ''Admin secret not configured on server.'')
      else case api_key of
        None \<Rightarrow> Inl (HTTPException 401 ''Missing admin secret. Provide X-API-Key header.'')
      | Some k \<Rightarrow>
          if k = [] then
            Inl (HTTPException 401 ''Missing admin secret. Provide X-API-Key header.'')
          else
            (case compare_digest k ADMIN_SECRET of
               Inl e \<Rightarrow> Inl e
             | Inr True \<Rightarrow> Inr k
             | Inr False \<Rightarrow> Inl (HTTPException 403 ''Invalid admin secret.'')))"

section \<open>Notions used in the statements\<close>

text \<open>A timestamp is inside the window of a call when it is newer than the cutoff.\<close>

definition in_window :: "timestamp \<Rightarrow> timestamp \<Rightarrow> bool" where
  "in_window now t = (t > now - of_int AUTH_FAILURE_WINDOW)"

text \<open>
  The record that \<^verbatim>\<open>dispatch\<close> logs for the request itself: one of the four logger calls
  of lines 51 to 61, chosen by the status code.
\<close>

definition request_record :: "string \<Rightarrow> request \<Rightarrow> response \<Rightarrow> real \<Rightarrow> log_record" where
  "request_record rid request response ms =
     (let s = status_code response;
          log_data = log_data_of rid (request\<lparr>req_state_request_id := Some rid\<rparr>) response
                       (client_ip_of request) ms
      in if s = 401 \<or> s = 403 then
           \<lparr>levelname = WARNING, message = ''Authentication failure'',
            extra = dict_set log_data ''event_type'' (JStr ''auth_failure'')\<rparr>
         else if s \<ge> 500 then
           \<lparr>levelname = ERROR, message = ''Server error'',
            extra = dict_set log_data ''event_type'' (JStr ''server_error'')\<rparr>
         else if s \<ge> 400 then
           \<lparr>levelname = WARNING, message = ''Client error'', extra = log_data\<rparr>
         else \<lparr>levelname = INFO, message = ''Request completed'', extra = log_data\<rparr>)"

text \<open>
  Example inputs: a request that carries a forwarded-for list and a bad key, the 403
  response of the handler, and a tracker that holds nine recent failures of that source.
\<close>

definition example_request :: request where
  "example_request =
     \<lparr> req_method = ''POST'', req_path = ''/jokes'',
       req_headers = [(''x-forwarded-for'', ''203.0.113.7, 10.0.0.1''), (''x-api-key'', ''cnj_bad'')],
       req_client_host = Some ''10.0.0.1'', req_state_request_id = None \<rparr>"

definition example_forbidden :: response where
  "example_forbidden =
     \<lparr> status_code = 403, resp_headers = [(''content-type'', ''application/json'')],
       resp_body = ''Invalid or deactivated API key.'' \<rparr>"

definition nine_failures :: tracker where
  "nine_failures = [(''203.0.113.7, 10.0.0.1'', [1, 2, 3, 4, 5, 6, 7, 8, 9])]"

section \<open>Dictionary lemmas\<close>

lemma dict_get_set_same: "dict_get (dict_set d k v) k = Some v"
  by (induction d) auto

lemma dict_get_set_other: "k' \<noteq> k \<Longrightarrow> dict_get (dict_set d k v) k' = dict_get d k'"
  by (induction d) auto

lemma dict_set_set: "dict_set (dict_set d k v) k w = dict_set d k w"
  by (induction d) auto

lemma keys_dict_set:
  "map fst (dict_set d k v) = (if k \<in> set (map fst d) then map fst d else map fst d @ [k])"
  by (induction d) force+

section \<open>The tracker in closed form\<close>

lemma track_auth_failure_eq:
  "track_auth_failure d ip now =
     (let cutoff = now - of_int AUTH_FAILURE_WINDOW;
          times = filter (\<lambda>t. t > cutoff) (failures_of d ip) @ [now];
          d' = dict_set d ip times;
          total = total_failures_of d' cutoff
      in (d',
          (if length times \<ge> AUTH_FAILURE_THRESHOLD_IP
           then [brute_force_record ip (length times)] else []) @
          (if total \<ge> AUTH_FAILURE_THRESHOLD_GLOBAL then [spray_record total] else [])))"
  by (cases "dict_get d ip")
     (simp_all add: track_auth_failure_def defaultdict_getitem_def failures_of_def Let_def
        dict_get_set_same dict_set_set)

lemma is_brute_force_simps:
  "is_brute_force (brute_force_record ip n)" "\<not> is_brute_force (spray_record m)"
  by (simp_all add: is_brute_force_def event_type_def brute_force_record_def spray_record_def)

lemma is_spray_simps:
  "is_spray (spray_record m)" "\<not> is_spray (brute_force_record ip n)"
  by (simp_all add: is_spray_def event_type_def brute_force_record_def spray_record_def)

section \<open>The admin gate\<close>

text \<open>
  C10. With a configured admin secret, presenting the empty string fails with the
  401 "missing" error, the same error as presenting nothing, and not with the 403
  "invalid" error: the emptiness test precedes the comparison with the secret.
\<close>

theorem admin_empty_is_missing:
  "ADMIN_SECRET \<noteq> [] \<Longrightarrow>
     verify_admin_secret ADMIN_SECRET (Some '''') =
       Inl (HTTPException 401 ''Missing admin secret. Provide X-API-Key header.'') \<and>
     verify_admin_secret ADMIN_SECRET None =
       Inl (HTTPException 401 ''Missing admin secret. Provide X-API-Key header.'')"
  by (simp add: verify_admin_secret_def)

theorem admin_empty_is_missing_witness:
  "''X'' \<noteq> [] \<and>
   verify_admin_secret ''X'' (Some '''') =
     Inl (HTTPException 401 ''Missing admin secret. Provide X-API-Key header.'') \<and>
   verify_admin_secret ''X'' None =
     Inl (HTTPException 401 ''Missing admin secret. Provide X-API-Key header.'')"
  using admin_empty_is_missing [of "''X''"] by simp

text \<open>
  C5 as stated fails: with the secret \<open>X\<close> configured, the empty string is a presented
  value that differs from the secret, and the gate answers 401 "missing", not 403
  "invalid".
\<close>

theorem admin_gate_counterexample:
  "'''' \<noteq> ''X'' \<and>
   verify_admin_secret ''X'' (Some '''') =
     Inl (HTTPException 401 ''Missing admin secret. Provide X-API-Key header.'') \<and>
   verify_admin_secret ''X'' (Some '''') \<noteq> Inl (HTTPException 403 ''Invalid admin secret.'')"
  by (simp add: verify_admin_secret_def)

text \<open>
  C5, amended. When the admin secret is unset or empty, every call fails with 503 "not
  configured", whatever is presented, the empty string included. With a configured
  secret, the call fails with 401 "missing" when nothing or the empty string is
  presented. For ASCII strings, with a configured secret: a presented non-empty value
  that differs from the secret fails with 403 "invalid" (the comparison is exact, so
  case matters), a presented value equal to the secret succeeds and is returned, and the
  call succeeds exactly when the presented value equals the configured secret.
\<close>

theorem admin_gate:
  "(ADMIN_SECRET = [] \<longrightarrow>
      verify_admin_secret ADMIN_SECRET presented =
        Inl (HTTPException 503 ''Admin secret not configured on server.'')) \<and>
   (ADMIN_SECRET \<noteq> [] \<longrightarrow>
      (presented = None \<or> presented = Some [] \<longrightarrow>
         verify_admin_secret ADMIN_SECRET presented =
           Inl (HTTPException 401 ''Missing admin secret. Provide X-API-Key header.'')) \<and>
      (is_ascii ADMIN_SECRET \<and> presented = Some k \<and> is_ascii k \<longrightarrow>
         (k \<noteq> [] \<and> k \<noteq> ADMIN_SECRET \<longrightarrow>
            verify_admin_secret ADMIN_SECRET presented =
              Inl (HTTPException 403 ''Invalid admin secret.'')) \<and>
         (k = ADMIN_SECRET \<longrightarrow>
            verify_admin_secret ADMIN_SECRET presented = Inr ADMIN_SECRET) \<and>
         ((\<exists>r. verify_admin_secret ADMIN_SECRET presented = Inr r) \<longleftrightarrow> k = ADMIN_SECRET)))"
  by (cases presented)
     (auto simp: verify_admin_secret_def compare_digest_def split: if_splits bool.splits)

theorem admin_gate_witness:
  "verify_admin_secret '''' (Some '''') =
     Inl (HTTPException 503 ''Admin secret not configured on server.'') \<and>
   verify_admin_secret ''X'' None =
     Inl (HTTPException 401 ''Missing admin secret. Provide X-API-Key header.'') \<and>
   verify_admin_secret ''X'' (Some '''') =
     Inl (HTTPException 401 ''Missing admin secret. Provide X-API-Key header.'') \<and>
   verify_admin_secret ''X'' (Some ''x'') = Inl (HTTPException 403 ''Invalid admin secret.'') \<and>
   verify_admin_secret ''X'' (Some ''X'') = Inr ''X''"
  using admin_gate [of "''''" "Some ''''"] admin_gate [of "''X''" None]
    admin_gate [of "''X''" "Some ''''"]
    admin_gate [of "''X''" "Some ''x''" "''x''"] admin_gate [of "''X''" "Some ''X''" "''X''"]
  by (simp add: is_ascii_def)

section \<open>The authenticator\<close>

text \<open>
  The column \<^verbatim>\<open>key_hash\<close> is declared unique, so at most one row has a given hash; the
  query then finds that row or nothing.
\<close>

lemma filter_unique_row:
  "distinct (map key_hash db) \<Longrightarrow> c \<in> set db \<Longrightarrow>
     filter (\<lambda>row. key_hash row = key_hash c \<and> P row) db = (if P c then [c] else [])"
proof (induction db)
  case Nil
  then show ?case by simp
next
  case (Cons r db)
  show ?case
  proof (cases "r = c")
    case True
    with Cons.prems have "\<forall>row \<in> set db. key_hash row \<noteq> key_hash c"
      by (auto simp: image_iff)
    then have "filter (\<lambda>row. key_hash row = key_hash c \<and> P row) db = []"
      by (simp add: filter_empty_conv)
    with True show ?thesis by simp
  next
    case False
    with Cons.prems have "c \<in> set db" "key_hash r \<noteq> key_hash c" "distinct (map key_hash db)"
      by (auto simp: image_iff)
    with Cons.IH show ?thesis by simp
  qed
qed

text \<open>
  C4. \<^verbatim>\<open>verify_api_key\<close> fails with 401 "missing" when the presented secret is absent or
  empty. For a presented non-empty secret it fails with 403 "invalid", with the same
  exception value, both when no row has the secret's hash and when the row with that
  hash is inactive; and it returns the row when the row with that hash is active.
\<close>

theorem authenticator_verify:
  assumes "distinct (map key_hash db)"
  shows
  "verify_api_key H db None =
      Inl (HTTPException 401 ''Missing API key. Provide X-API-Key header.'') \<and>
   verify_api_key H db (Some []) =
      Inl (HTTPException 401 ''Missing API key. Provide X-API-Key header.'') \<and>
   (s \<noteq> [] \<and> (\<forall>r \<in> set db. key_hash r \<noteq> hash_api_key H s) \<longrightarrow>
      verify_api_key H db (Some s) =
        Inl (HTTPException 403 ''Invalid or deactivated API key.'')) \<and>
   (s \<noteq> [] \<and> c \<in> set db \<and> key_hash c = hash_api_key H s \<and> \<not> is_active c \<longrightarrow>
      verify_api_key H db (Some s) =
        Inl (HTTPException 403 ''Invalid or deactivated API key.'')) \<and>
   (s \<noteq> [] \<and> c \<in> set db \<and> key_hash c = hash_api_key H s \<and> is_active c \<longrightarrow>
      verify_api_key H db (Some s) = Inr c)"
proof (intro conjI impI)
  show "verify_api_key H db None =
      Inl (HTTPException 401 ''Missing API key. Provide X-API-Key header.'')"
    by (simp add: verify_api_key_def)
  show "verify_api_key H db (Some []) =
      Inl (HTTPException 401 ''Missing API key. Provide X-API-Key header.'')"
    by (simp add: verify_api_key_def)
next
  assume a: "s \<noteq> [] \<and> (\<forall>r \<in> set db. key_hash r \<noteq> hash_api_key H s)"
  then have "filter (\<lambda>row. key_hash row = hash_api_key H s \<and> is_active row) db = []"
    by (simp add: filter_empty_conv)
  with a show "verify_api_key H db (Some s) =
      Inl (HTTPException 403 ''Invalid or deactivated API key.'')"
    by (simp add: verify_api_key_def)
next
  assume a: "s \<noteq> [] \<and> c \<in> set db \<and> key_hash c = hash_api_key H s \<and> \<not> is_active c"
  with assms filter_unique_row [of db c is_active]
  have "filter (\<lambda>row. key_hash row = hash_api_key H s \<and> is_active row) db = []"
    by simp
  with a show "verify_api_key H db (Some s) =
      Inl (HTTPException 403 ''Invalid or deactivated API key.'')"
    by (simp add: verify_api_key_def)
next
  assume a: "s \<noteq> [] \<and> c \<in> set db \<and> key_hash c = hash_api_key H s \<and> is_active c"
  with assms filter_unique_row [of db c is_active]
  have "filter (\<lambda>row. key_hash row = hash_api_key H s \<and> is_active row) db = [c]"
    by simp
  with a show "verify_api_key H db (Some s) = Inr c"
    by (simp add: verify_api_key_def)
qed

theorem authenticator_verify_witness:
  "distinct (map key_hash
      [\<lparr>key_id = 1, key_hash = ''h:cnj_a'', name = ''ci'', is_active = True, created_at = 0\<rparr>,
       \<lparr>key_id = 2, key_hash = ''h:cnj_b'', name = ''old'', is_active = False, created_at = 0\<rparr>]) \<and>
   verify_api_key (\<lambda>k. ''h:'' @ k)
      [\<lparr>key_id = 1, key_hash = ''h:cnj_a'', name = ''ci'', is_active = True, created_at = 0\<rparr>,
       \<lparr>key_id = 2, key_hash = ''h:cnj_b'', name = ''old'', is_active = False, created_at = 0\<rparr>]
      None = Inl (HTTPException 401 ''Missing API key. Provide X-API-Key header.'') \<and>
   verify_api_key (\<lambda>k. ''h:'' @ k)
      [\<lparr>key_id = 1, key_hash = ''h:cnj_a'', name = ''ci'', is_active = True, created_at = 0\<rparr>,
       \<lparr>key_id = 2, key_hash = ''h:cnj_b'', name = ''old'', is_active = False, created_at = 0\<rparr>]
      (Some ''cnj_c'') = Inl (HTTPException 403 ''Invalid or deactivated API key.'') \<and>
   verify_api_key (\<lambda>k. ''h:'' @ k)
      [\<lparr>key_id = 1, key_hash = ''h:cnj_a'', name = ''ci'', is_active = True, created_at = 0\<rparr>,
       \<lparr>key_id = 2, key_hash = ''h:cnj_b'', name = ''old'', is_active = False, created_at = 0\<rparr>]
      (Some ''cnj_b'') = Inl (HTTPException 403 ''Invalid or deactivated API key.'') \<and>
   verify_api_key (\<lambda>k. ''h:'' @ k)
      [\<lparr>key_id = 1, key_hash = ''h:cnj_a'', name = ''ci'', is_active = True, created_at = 0\<rparr>,
       \<lparr>key_id = 2, key_hash = ''h:cnj_b'', name = ''old'', is_active = False, created_at = 0\<rparr>]
      (Some ''cnj_a'') =
     Inr \<lparr>key_id = 1, key_hash = ''h:cnj_a'', name = ''ci'', is_active = True, created_at = 0\<rparr>"
proof -
  let ?a = "\<lparr>key_id = 1, key_hash = ''h:cnj_a'', name = ''ci'', is_active = True, created_at = 0\<rparr>"
  let ?b = "\<lparr>key_id = 2, key_hash = ''h:cnj_b'', name = ''old'', is_active = False, created_at = 0\<rparr>"
  let ?H = "\<lambda>k. ''h:'' @ k"
  have d: "distinct (map key_hash [?a, ?b])" by simp
  have 1: "verify_api_key ?H [?a, ?b] None =
      Inl (HTTPException 401 ''Missing API key. Provide X-API-Key header.'')"
    using authenticator_verify [OF d, of ?H] by simp
  have 2: "verify_api_key ?H [?a, ?b] (Some ''cnj_c'') =
      Inl (HTTPException 403 ''Invalid or deactivated API key.'')"
    using authenticator_verify [OF d, of ?H "''cnj_c''" ?a] by (simp add: hash_api_key_def)
  have 3: "verify_api_key ?H [?a, ?b] (Some ''cnj_b'') =
      Inl (HTTPException 403 ''Invalid or deactivated API key.'')"
    using authenticator_verify [OF d, of ?H "''cnj_b''" ?b] by (simp add: hash_api_key_def)
  have 4: "verify_api_key ?H [?a, ?b] (Some ''cnj_a'') = Inr ?a"
    using authenticator_verify [OF d, of ?H "''cnj_a''" ?a] by (simp add: hash_api_key_def)
  from d 1 2 3 4 show ?thesis by blast
qed

section \<open>The per-source threshold\<close>

lemma in_window_eq: "in_window now = (<) (now - of_int AUTH_FAILURE_WINDOW)"
  by (rule ext) (simp add: in_window_def)

lemma fst_track_auth_failure:
  "fst (track_auth_failure d ip now) =
     dict_set d ip (filter (in_window now) (failures_of d ip) @ [now])"
  by (simp add: track_auth_failure_eq Let_def in_window_eq)

lemma failures_of_dict_set_same: "failures_of (dict_set d k v) k = v"
  by (simp add: failures_of_def dict_get_set_same)

lemma failures_of_track_same:
  "failures_of (fst (track_auth_failure d ip now)) ip =
     filter (in_window now) (failures_of d ip) @ [now]"
  by (simp add: fst_track_auth_failure failures_of_dict_set_same)

lemma brute_force_of_track:
  "filter is_brute_force (snd (track_auth_failure d ip now)) =
     (if AUTH_FAILURE_THRESHOLD_IP \<le> length (filter (in_window now) (failures_of d ip)) + 1
      then [brute_force_record ip (length (filter (in_window now) (failures_of d ip)) + 1)]
      else [])"
  by (simp add: track_auth_failure_eq Let_def in_window_eq is_brute_force_simps)

lemma spray_of_track:
  "filter is_spray (snd (track_auth_failure d ip now)) =
     (if AUTH_FAILURE_THRESHOLD_GLOBAL \<le>
           total_failures_of (fst (track_auth_failure d ip now)) (now - of_int AUTH_FAILURE_WINDOW)
      then [spray_record
              (total_failures_of (fst (track_auth_failure d ip now)) (now - of_int AUTH_FAILURE_WINDOW))]
      else [])"
  by (simp add: track_auth_failure_eq Let_def is_spray_simps)

lemma record_calls_Cons_snd:
  "snd (record_calls d ((ip, now) # calls)) =
     snd (track_auth_failure d ip now) # snd (record_calls (fst (track_auth_failure d ip now)) calls)"
  by (simp add: Let_def split: prod.splits)

lemma brute_force_of_calls:
  assumes "sorted_wrt (\<lambda>earlier later. in_window later earlier) ts"
    and "\<forall>p \<in> set (failures_of d ip). \<not> in_window (hd ts) p \<or> (\<forall>t \<in> set ts. in_window t p)"
    and "i < length ts"
  shows "filter is_brute_force (snd (record_calls d (map (Pair ip) ts)) ! i) =
     (if AUTH_FAILURE_THRESHOLD_IP \<le>
           length (filter (in_window (hd ts)) (failures_of d ip)) + i + 1
      then [brute_force_record ip (length (filter (in_window (hd ts)) (failures_of d ip)) + i + 1)]
      else [])"
  using assms
proof (induction ts arbitrary: d i)
  case Nil
  then show ?case by simp
next
  case (Cons t ts)
  let ?d' = "fst (track_auth_failure d ip t)"
  let ?kept = "filter (in_window t) (failures_of d ip)"
  show ?case
  proof (cases i)
    case 0
    then show ?thesis
      by (simp add: record_calls_Cons_snd brute_force_of_track del: record_calls.simps)
  next
    case (Suc j)
    with Cons.prems have j: "j < length ts" by simp
    then have ne: "ts \<noteq> []" by auto
    have f': "failures_of ?d' ip = ?kept @ [t]"
      by (rule failures_of_track_same)
    have all_in: "\<forall>p \<in> set (failures_of ?d' ip). \<forall>u \<in> set ts. in_window u p"
      using Cons.prems(1,2) by (auto simp: f')
    then have pre: "\<forall>p \<in> set (failures_of ?d' ip).
        \<not> in_window (hd ts) p \<or> (\<forall>u \<in> set ts. in_window u p)"
      by blast
    from Cons.prems(1) have sorted: "sorted_wrt (\<lambda>earlier later. in_window later earlier) ts"
      by simp
    from all_in ne have "filter (in_window (hd ts)) (failures_of ?d' ip) = failures_of ?d' ip"
      by (simp add: filter_id_conv)
    then have len: "length (filter (in_window (hd ts)) (failures_of ?d' ip)) = length ?kept + 1"
      by (simp add: f')
    from Cons.IH [OF sorted pre j] len Suc show ?thesis
      by (simp add: record_calls_Cons_snd del: record_calls.simps)
  qed
qed

lemma brute_force_record_fields:
  "levelname (brute_force_record ip n) = CRITICAL"
  "message (brute_force_record ip n) = ''Possible brute force attack detected''"
  "event_type (brute_force_record ip n) = Some (JStr ''brute_force_detected'')"
  "dict_get (extra (brute_force_record ip n)) ''client_ip'' = Some (JStr ip)"
  "dict_get (extra (brute_force_record ip n)) ''failure_count'' = Some (JInt (int n))"
  "dict_get (extra (brute_force_record ip n)) ''window_seconds'' = Some (JInt AUTH_FAILURE_WINDOW)"
  by (simp_all add: brute_force_record_def event_type_def)

text \<open>
  C2. A timestamp is within the window of a call when it is strictly newer than the
  cutoff, \<open>t > now - W\<close>; a timestamp exactly \<open>W\<close> seconds old is pruned. Take a source
  whose held timestamps are all outside the window of the first call, and ten calls for
  that source whose clock readings each lie within the window of every later call. None
  of the first nine calls logs a brute-force record, and the tenth logs exactly one: a
  record of level CRITICAL with the event type \<open>brute_force_detected\<close>, whose
  \<open>client_ip\<close> field is that source, whose \<open>failure_count\<close> field is ten and whose
  \<open>window_seconds\<close> field is the window. In every call the sequence is pruned before the
  comparison: the record is logged exactly when the number of held timestamps newer than
  the cutoff, plus one, reaches the threshold, and it then carries the source and that
  number; so older timestamps never count.
\<close>

theorem brute_force_threshold:
  assumes "length ts = AUTH_FAILURE_THRESHOLD_IP"
    and "sorted_wrt (\<lambda>earlier later. later - of_int AUTH_FAILURE_WINDOW < earlier) ts"
    and "\<forall>p \<in> set (failures_of d ip). p \<le> hd ts - of_int AUTH_FAILURE_WINDOW"
  shows
  "(i < AUTH_FAILURE_THRESHOLD_IP - 1 \<longrightarrow>
      filter is_brute_force (snd (record_calls d (map (Pair ip) ts)) ! i) = []) \<and>
   filter is_brute_force
      (snd (record_calls d (map (Pair ip) ts)) ! (AUTH_FAILURE_THRESHOLD_IP - 1)) =
     [brute_force_record ip AUTH_FAILURE_THRESHOLD_IP] \<and>
   filter is_brute_force (snd (track_auth_failure d' ip now)) =
     (if AUTH_FAILURE_THRESHOLD_IP \<le>
           length (filter (\<lambda>t. t > now - of_int AUTH_FAILURE_WINDOW) (failures_of d' ip)) + 1
      then [brute_force_record ip
              (length (filter (\<lambda>t. t > now - of_int AUTH_FAILURE_WINDOW) (failures_of d' ip)) + 1)]
      else []) \<and>
   length (filter is_brute_force
      (snd (record_calls d (map (Pair ip) ts)) ! (AUTH_FAILURE_THRESHOLD_IP - 1))) = 1 \<and>
   levelname (hd (filter is_brute_force
      (snd (record_calls d (map (Pair ip) ts)) ! (AUTH_FAILURE_THRESHOLD_IP - 1)))) = CRITICAL \<and>
   event_type (hd (filter is_brute_force
      (snd (record_calls d (map (Pair ip) ts)) ! (AUTH_FAILURE_THRESHOLD_IP - 1)))) =
     Some (JStr ''brute_force_detected'') \<and>
   dict_get (extra (hd (filter is_brute_force
      (snd (record_calls d (map (Pair ip) ts)) ! (AUTH_FAILURE_THRESHOLD_IP - 1)))))
      ''client_ip'' = Some (JStr ip) \<and>
   dict_get (extra (hd (filter is_brute_force
      (snd (record_calls d (map (Pair ip) ts)) ! (AUTH_FAILURE_THRESHOLD_IP - 1)))))
      ''failure_count'' = Some (JInt 10) \<and>
   dict_get (extra (hd (filter is_brute_force
      (snd (record_calls d (map (Pair ip) ts)) ! (AUTH_FAILURE_THRESHOLD_IP - 1)))))
      ''window_seconds'' = Some (JInt 300) \<and>
   list_all
     (\<lambda>r. levelname r = CRITICAL \<and>
          event_type r = Some (JStr ''brute_force_detected'') \<and>
          dict_get (extra r) ''client_ip'' = Some (JStr ip) \<and>
          dict_get (extra r) ''failure_count'' =
            Some (JInt (int (length (filter (\<lambda>t. t > now - of_int AUTH_FAILURE_WINDOW)
                                       (failures_of d' ip)) + 1))))
     (filter is_brute_force (snd (track_auth_failure d' ip now)))"
proof -
  let ?tenth = "filter is_brute_force
      (snd (record_calls d (map (Pair ip) ts)) ! (AUTH_FAILURE_THRESHOLD_IP - 1))"
  have s: "sorted_wrt (\<lambda>earlier later. in_window later earlier) ts"
    using assms(2) by (simp add: in_window_def)
  have stale: "filter (in_window (hd ts)) (failures_of d ip) = []"
    using assms(3) by (auto simp: filter_empty_conv in_window_def)
  then have pre: "\<forall>p \<in> set (failures_of d ip).
      \<not> in_window (hd ts) p \<or> (\<forall>t \<in> set ts. in_window t p)"
    by (simp add: filter_empty_conv)
  have count: "j < length ts \<Longrightarrow>
      filter is_brute_force (snd (record_calls d (map (Pair ip) ts)) ! j) =
        (if AUTH_FAILURE_THRESHOLD_IP \<le> j + 1 then [brute_force_record ip (j + 1)] else [])" for j
    using brute_force_of_calls [OF s pre, of j] by (simp add: stale)
  have 1: "i < AUTH_FAILURE_THRESHOLD_IP - 1 \<longrightarrow>
      filter is_brute_force (snd (record_calls d (map (Pair ip) ts)) ! i) = []"
    using count [of i] assms(1) by auto
  have 2: "?tenth = [brute_force_record ip AUTH_FAILURE_THRESHOLD_IP]"
    using count [of "AUTH_FAILURE_THRESHOLD_IP - 1"] assms(1)
    by (simp add: AUTH_FAILURE_THRESHOLD_IP_def)
  have 3: "filter is_brute_force (snd (track_auth_failure d' ip now)) =
     (if AUTH_FAILURE_THRESHOLD_IP \<le>
           length (filter (\<lambda>t. t > now - of_int AUTH_FAILURE_WINDOW) (failures_of d' ip)) + 1
      then [brute_force_record ip
              (length (filter (\<lambda>t. t > now - of_int AUTH_FAILURE_WINDOW) (failures_of d' ip)) + 1)]
      else [])"
    using brute_force_of_track [of d' ip now] by (simp add: in_window_eq)
  have 4: "length ?tenth = 1"
    unfolding 2 by simp
  have 5: "levelname (hd ?tenth) = CRITICAL"
    and 6: "event_type (hd ?tenth) = Some (JStr ''brute_force_detected'')"
    and 7: "dict_get (extra (hd ?tenth)) ''client_ip'' = Some (JStr ip)"
    unfolding 2 by (simp_all add: brute_force_record_fields)
  have 8: "dict_get (extra (hd ?tenth)) ''failure_count'' = Some (JInt 10)"
    unfolding 2 by (simp add: brute_force_record_fields AUTH_FAILURE_THRESHOLD_IP_def)
  have 9: "dict_get (extra (hd ?tenth)) ''window_seconds'' = Some (JInt 300)"
    unfolding 2 by (simp add: brute_force_record_fields AUTH_FAILURE_WINDOW_def)
  have 10: "list_all
     (\<lambda>r. levelname r = CRITICAL \<and>
          event_type r = Some (JStr ''brute_force_detected'') \<and>
          dict_get (extra r) ''client_ip'' = Some (JStr ip) \<and>
          dict_get (extra r) ''failure_count'' =
            Some (JInt (int (length (filter (\<lambda>t. t > now - of_int AUTH_FAILURE_WINDOW)
                                       (failures_of d' ip)) + 1))))
     (filter is_brute_force (snd (track_auth_failure d' ip now)))"
    by (simp add: 3 brute_force_record_fields)
  from 1 2 3 4 5 6 7 8 9 10 show ?thesis by blast
qed

theorem brute_force_threshold_witness:
  "length [1, 2, 3, 4, 5, 6, 7, 8, 9, 10 :: real] = AUTH_FAILURE_THRESHOLD_IP \<and>
   failures_of [(''10.0.0.1'', [-500, -400])] ''10.0.0.1'' = [-500, -400] \<and>
   filter is_brute_force
     (snd (record_calls [(''10.0.0.1'', [-500, -400])]
        (map (Pair ''10.0.0.1'') [1, 2, 3, 4, 5, 6, 7, 8, 9, 10])) ! 8) = [] \<and>
   filter is_brute_force
     (snd (record_calls [(''10.0.0.1'', [-500, -400])]
        (map (Pair ''10.0.0.1'') [1, 2, 3, 4, 5, 6, 7, 8, 9, 10])) ! 9) =
     [brute_force_record ''10.0.0.1'' 10] \<and>
   levelname (hd (filter is_brute_force
     (snd (record_calls [(''10.0.0.1'', [-500, -400])]
        (map (Pair ''10.0.0.1'') [1, 2, 3, 4, 5, 6, 7, 8, 9, 10])) ! 9))) = CRITICAL \<and>
   dict_get (extra (hd (filter is_brute_force
     (snd (record_calls [(''10.0.0.1'', [-500, -400])]
        (map (Pair ''10.0.0.1'') [1, 2, 3, 4, 5, 6, 7, 8, 9, 10])) ! 9)))) ''client_ip'' =
     Some (JStr ''10.0.0.1'') \<and>
   dict_get (extra (hd (filter is_brute_force
     (snd (record_calls [(''10.0.0.1'', [-500, -400])]
        (map (Pair ''10.0.0.1'') [1, 2, 3, 4, 5, 6, 7, 8, 9, 10])) ! 9)))) ''failure_count'' =
     Some (JInt 10)"
proof -
  let ?ts = "[1, 2, 3, 4, 5, 6, 7, 8, 9, 10 :: real]"
  let ?d = "[(''10.0.0.1'', [-500, -400 :: real])]"
  have h1: "length ?ts = AUTH_FAILURE_THRESHOLD_IP"
    by (simp add: AUTH_FAILURE_THRESHOLD_IP_def)
  have h2: "sorted_wrt (\<lambda>earlier later. later - of_int AUTH_FAILURE_WINDOW < earlier) ?ts"
    by (simp add: AUTH_FAILURE_WINDOW_def)
  have f: "failures_of ?d ''10.0.0.1'' = [-500, -400]"
    by (simp add: failures_of_def)
  have h3: "\<forall>p \<in> set (failures_of ?d ''10.0.0.1''). p \<le> hd ?ts - of_int AUTH_FAILURE_WINDOW"
    by (simp add: f AUTH_FAILURE_WINDOW_def)
  have n: "AUTH_FAILURE_THRESHOLD_IP - 1 = 9" "(8::nat) < AUTH_FAILURE_THRESHOLD_IP - 1"
    by (simp_all add: AUTH_FAILURE_THRESHOLD_IP_def)
  note t = brute_force_threshold [OF h1 h2 h3, of 8 ?d 1, unfolded n(1)]
  from t
  have a: "filter is_brute_force (snd (record_calls ?d (map (Pair ''10.0.0.1'') ?ts)) ! 8) = []"
    by simp
  from t
  have b: "filter is_brute_force (snd (record_calls ?d (map (Pair ''10.0.0.1'') ?ts)) ! 9) =
      [brute_force_record ''10.0.0.1'' 10]"
    by (simp add: AUTH_FAILURE_THRESHOLD_IP_def)
  from t
  have c: "levelname (hd (filter is_brute_force
        (snd (record_calls ?d (map (Pair ''10.0.0.1'') ?ts)) ! 9))) = CRITICAL"
    and e: "dict_get (extra (hd (filter is_brute_force
        (snd (record_calls ?d (map (Pair ''10.0.0.1'') ?ts)) ! 9)))) ''client_ip'' =
      Some (JStr ''10.0.0.1'')"
    and g: "dict_get (extra (hd (filter is_brute_force
        (snd (record_calls ?d (map (Pair ''10.0.0.1'') ?ts)) ! 9)))) ''failure_count'' =
      Some (JInt 10)"
    by blast+
  from h1 f a b c e g show ?thesis by blast
qed

section \<open>The frame of a call\<close>

lemma keys_track_auth_failure:
  "map fst (fst (track_auth_failure d ip now)) =
     (if ip \<in> set (map fst d) then map fst d else map fst d @ [ip])"
  by (simp only: fst_track_auth_failure keys_dict_set)

text \<open>
  C9. A call for one source leaves the entry of every other source as it was, the
  timestamps outside the window included, adds no entry for another source, and removes
  no key from the dictionary.
\<close>

theorem record_frame:
  "(other \<noteq> ip \<longrightarrow>
      dict_get (fst (track_auth_failure d ip now)) other = dict_get d other) \<and>
   set (map fst d) \<subseteq> set (map fst (fst (track_auth_failure d ip now)))"
  by (auto simp: fst_track_auth_failure dict_get_set_other keys_dict_set)

theorem record_frame_witness:
  "''10.0.0.2'' \<noteq> ''10.0.0.1'' \<and>
   dict_get (fst (track_auth_failure [(''10.0.0.2'', [1, 2])] ''10.0.0.1'' 1000)) ''10.0.0.2'' =
     Some [1, 2] \<and>
   map fst (fst (track_auth_failure [(''10.0.0.2'', [1, 2])] ''10.0.0.1'' 1000)) =
     [''10.0.0.2'', ''10.0.0.1'']"
  using record_frame [of "''10.0.0.2''" "''10.0.0.1''" "[(''10.0.0.2'', [1, 2])]" 1000]
  by (simp add: keys_track_auth_failure)

section \<open>The aggregate threshold\<close>

lemma fst_record_calls_Cons:
  "fst (record_calls d ((ip, now) # calls)) =
     fst (record_calls (fst (track_auth_failure d ip now)) calls)"
  by (simp add: Let_def split: prod.splits)

lemma fst_record_calls_Nil: "fst (record_calls d []) = d"
  by simp

lemma fst_track_single:
  "fst (track_auth_failure [(ip, pre)] ip now) = [(ip, filter (in_window now) pre @ [now])]"
  "fst (track_auth_failure [] ip now) = [(ip, [now])]"
  by (simp_all add: fst_track_auth_failure failures_of_def)

lemma nineteen_calls:
  "fst (record_calls []
      (map (Pair ''10.0.0.2'') [1, 2, 3, 4, 5, 6, 7, 8, 9, 10, 11, 12, 13, 14, 15, 16, 17, 18, 19])) =
   [(''10.0.0.2'', [1, 2, 3, 4, 5, 6, 7, 8, 9, 10, 11, 12, 13, 14, 15, 16, 17, 18, 19])]"
  by (simp add: fst_record_calls_Cons fst_record_calls_Nil fst_track_single in_window_def
      AUTH_FAILURE_WINDOW_def del: record_calls.simps)

lemma spray_at_failing_input:
  "snd (track_auth_failure
      [(''10.0.0.2'', [1, 2, 3, 4, 5, 6, 7, 8, 9, 10, 11, 12, 13, 14, 15, 16, 17, 18, 19])]
      ''10.0.0.1'' 310) = [spray_record 20]"
  apply (simp add: track_auth_failure_eq Let_def failures_of_def
      AUTH_FAILURE_WINDOW_def AUTH_FAILURE_THRESHOLD_GLOBAL_def AUTH_FAILURE_THRESHOLD_IP_def
      total_failures_of_def)
  apply (rule arg_cong [where f = spray_record])
  apply simp
  done

lemma pruned_at_failing_input:
  "spec_pruned_aggregate
     (fst (track_auth_failure
        [(''10.0.0.2'', [1, 2, 3, 4, 5, 6, 7, 8, 9, 10, 11, 12, 13, 14, 15, 16, 17, 18, 19])]
        ''10.0.0.1'' 310))
     (310 - of_int AUTH_FAILURE_WINDOW) = 10"
  by (simp add: track_auth_failure_eq Let_def failures_of_def
      AUTH_FAILURE_WINDOW_def spec_pruned_aggregate_def)

text \<open>
  C1 fails on the code. Nineteen failures of source 10.0.0.2 at the readings 1 to 19
  leave that source with nineteen timestamps. A failure of source 10.0.0.1 at the
  reading 310 prunes only the sequence of 10.0.0.1; the sequence of 10.0.0.2 still holds
  one to ten, which are outside the window, and is counted with its whole length because
  it also holds newer timestamps. The call logs a spray record with the total 20, while
  the aggregate after pruning every sequence against the cutoff is 10, below the
  threshold.
\<close>

theorem spray_counts_stale_timestamps:
  "fst (record_calls []
      (map (Pair ''10.0.0.2'') [1, 2, 3, 4, 5, 6, 7, 8, 9, 10, 11, 12, 13, 14, 15, 16, 17, 18, 19])) =
     [(''10.0.0.2'', [1, 2, 3, 4, 5, 6, 7, 8, 9, 10, 11, 12, 13, 14, 15, 16, 17, 18, 19])] \<and>
   snd (track_auth_failure
      [(''10.0.0.2'', [1, 2, 3, 4, 5, 6, 7, 8, 9, 10, 11, 12, 13, 14, 15, 16, 17, 18, 19])]
      ''10.0.0.1'' 310) = [spray_record 20] \<and>
   spec_pruned_aggregate
     (fst (track_auth_failure
        [(''10.0.0.2'', [1, 2, 3, 4, 5, 6, 7, 8, 9, 10, 11, 12, 13, 14, 15, 16, 17, 18, 19])]
        ''10.0.0.1'' 310))
     (310 - of_int AUTH_FAILURE_WINDOW) = 10 \<and>
   10 < AUTH_FAILURE_THRESHOLD_GLOBAL"
proof -
  have "(10::nat) < AUTH_FAILURE_THRESHOLD_GLOBAL"
    by (simp add: AUTH_FAILURE_THRESHOLD_GLOBAL_def)
  with nineteen_calls spray_at_failing_input pruned_at_failing_input show ?thesis
    by (intro conjI)
qed

section \<open>The request instrumentor\<close>

lemma lower_literals:
  "lower ''X-Forwarded-For'' = ''x-forwarded-for''"
  "lower ''User-Agent'' = ''user-agent''"
  "lower ''X-Request-ID'' = ''x-request-id''"
  by code_simp+

lemma dict_get_headers_put: "dict_get (headers_put hs k v) k = Some v"
  by (induction hs) auto

lemma client_ip_of_eq:
  "client_ip_of request =
     (case dict_get (req_headers request) ''x-forwarded-for'' of
        Some v \<Rightarrow> v
      | None \<Rightarrow> (case req_client_host request of Some host \<Rightarrow> host | None \<Rightarrow> ''unknown''))"
  by (simp add: client_ip_of_def headers_get_def lower_literals)

lemma client_ip_of_state [simp]:
  "client_ip_of (request\<lparr>req_state_request_id := x\<rparr>) = client_ip_of request"
  by (simp add: client_ip_of_def)

lemma dispatch_raises:
  "call_next (request\<lparr>req_state_request_id := Some rid\<rparr>) = Inl e \<Longrightarrow>
     dispatch d rid ms now request call_next = (Inl e, d, [])"
  by (simp add: dispatch_def)

lemma dispatch_returns:
  "call_next (request\<lparr>req_state_request_id := Some rid\<rparr>) = Inr response \<Longrightarrow>
     dispatch d rid ms now request call_next =
       (Inr (response\<lparr>resp_headers := headers_setitem (resp_headers response) ''X-Request-ID'' rid\<rparr>),
        (if status_code response = 401 \<or> status_code response = 403
         then fst (track_auth_failure d (client_ip_of request) now) else d),
        request_record rid request response ms #
        (if status_code response = 401 \<or> status_code response = 403
         then snd (track_auth_failure d (client_ip_of request) now) else []))"
  by (simp add: dispatch_def request_record_def Let_def split: prod.splits)

lemma track_auth_failure_changes: "fst (track_auth_failure d ip now) \<noteq> d"
proof
  assume eq: "fst (track_auth_failure d ip now) = d"
  let ?old = "failures_of d ip"
  have "failures_of (fst (track_auth_failure d ip now)) ip = filter (in_window now) ?old @ [now]"
    by (rule failures_of_track_same)
  with eq have old: "?old = filter (in_window now) ?old @ [now]"
    by simp
  have "in_window now now"
    by (simp add: in_window_def AUTH_FAILURE_WINDOW_def)
  then have "filter (in_window now) (filter (in_window now) ?old @ [now]) =
      filter (in_window now) ?old @ [now]"
    by simp
  with old have "filter (in_window now) ?old = filter (in_window now) ?old @ [now]"
    by simp
  then show False by simp
qed

lemma event_type_request_record:
  "event_type (request_record rid request response ms) =
     Some (JStr (if status_code response = 401 \<or> status_code response = 403 then ''auth_failure''
                 else if status_code response \<ge> 500 then ''server_error''
                 else ''http_request''))"
  by (simp add: request_record_def event_type_def log_data_of_def Let_def)

text \<open>
  C7. When the handler returns a response, the record logged for the request is the
  warning "Authentication failure" with event type \<open>auth_failure\<close> when the status is 401
  or 403, the error "Server error" with event type \<open>server_error\<close> when the status is at
  least 500, the warning "Client error" when the status is in 400 to 499 and neither 401
  nor 403, and the info "Request completed" otherwise. \<^verbatim>\<open>_track_auth_failure\<close> is run for
  the source address exactly when the status is 401 or 403: the failure dictionary is
  then the result of that call, and it is unchanged otherwise.
\<close>

theorem status_classification:
  assumes "call_next (request\<lparr>req_state_request_id := Some rid\<rparr>) = Inr response"
    and "dispatch d rid ms now request call_next = (out, d', logs)"
  shows
  "logs \<noteq> [] \<and>
   (status_code response = 401 \<or> status_code response = 403 \<longrightarrow>
      levelname (hd logs) = WARNING \<and> message (hd logs) = ''Authentication failure'' \<and>
      event_type (hd logs) = Some (JStr ''auth_failure'') \<and>
      d' = fst (track_auth_failure d (client_ip_of request) now) \<and>
      tl logs = snd (track_auth_failure d (client_ip_of request) now)) \<and>
   (status_code response \<ge> 500 \<longrightarrow>
      levelname (hd logs) = ERROR \<and> message (hd logs) = ''Server error'' \<and>
      event_type (hd logs) = Some (JStr ''server_error'') \<and> d' = d \<and> tl logs = []) \<and>
   (400 \<le> status_code response \<and> status_code response \<le> 499 \<and>
    status_code response \<noteq> 401 \<and> status_code response \<noteq> 403 \<longrightarrow>
      levelname (hd logs) = WARNING \<and> message (hd logs) = ''Client error'' \<and>
      event_type (hd logs) = Some (JStr ''http_request'') \<and> d' = d \<and> tl logs = []) \<and>
   (status_code response < 400 \<longrightarrow>
      levelname (hd logs) = INFO \<and> message (hd logs) = ''Request completed'' \<and>
      event_type (hd logs) = Some (JStr ''http_request'') \<and> d' = d \<and> tl logs = []) \<and>
   (d' \<noteq> d \<longleftrightarrow> status_code response = 401 \<or> status_code response = 403)"
proof -
  let ?s = "status_code response"
  let ?auth = "?s = 401 \<or> ?s = 403"
  have "dispatch d rid ms now request call_next =
       (Inr (response\<lparr>resp_headers := headers_setitem (resp_headers response) ''X-Request-ID'' rid\<rparr>),
        (if ?auth then fst (track_auth_failure d (client_ip_of request) now) else d),
        request_record rid request response ms #
        (if ?auth then snd (track_auth_failure d (client_ip_of request) now) else []))"
    using assms(1) by (rule dispatch_returns)
  with assms(2)
  have d': "d' = (if ?auth then fst (track_auth_failure d (client_ip_of request) now) else d)"
    and logs: "logs = request_record rid request response ms #
        (if ?auth then snd (track_auth_failure d (client_ip_of request) now) else [])"
    by simp_all
  have hd: "hd logs = request_record rid request response ms" and ne: "logs \<noteq> []"
    by (simp_all add: logs)
  have a: "?auth \<longrightarrow>
      levelname (hd logs) = WARNING \<and> message (hd logs) = ''Authentication failure'' \<and>
      event_type (hd logs) = Some (JStr ''auth_failure'') \<and>
      d' = fst (track_auth_failure d (client_ip_of request) now) \<and>
      tl logs = snd (track_auth_failure d (client_ip_of request) now)"
    using event_type_request_record [of rid request response ms]
    by (auto simp: hd d' logs request_record_def Let_def)
  have b: "?s \<ge> 500 \<longrightarrow>
      levelname (hd logs) = ERROR \<and> message (hd logs) = ''Server error'' \<and>
      event_type (hd logs) = Some (JStr ''server_error'') \<and> d' = d \<and> tl logs = []"
    using event_type_request_record [of rid request response ms]
    by (auto simp: hd d' logs request_record_def Let_def)
  have c: "400 \<le> ?s \<and> ?s \<le> 499 \<and> ?s \<noteq> 401 \<and> ?s \<noteq> 403 \<longrightarrow>
      levelname (hd logs) = WARNING \<and> message (hd logs) = ''Client error'' \<and>
      event_type (hd logs) = Some (JStr ''http_request'') \<and> d' = d \<and> tl logs = []"
    using event_type_request_record [of rid request response ms]
    by (auto simp: hd d' logs request_record_def Let_def)
  have e: "?s < 400 \<longrightarrow>
      levelname (hd logs) = INFO \<and> message (hd logs) = ''Request completed'' \<and>
      event_type (hd logs) = Some (JStr ''http_request'') \<and> d' = d \<and> tl logs = []"
    using event_type_request_record [of rid request response ms]
    by (auto simp: hd d' logs request_record_def Let_def)
  have f: "d' \<noteq> d \<longleftrightarrow> ?auth"
    using track_auth_failure_changes [of d "client_ip_of request" now] by (auto simp: d')
  from ne a b c e f show ?thesis by blast
qed

lemma request_record_not_alert:
  "\<not> is_brute_force (request_record rid request response ms)"
  "\<not> is_spray (request_record rid request response ms)"
  by (simp_all add: is_brute_force_def is_spray_def event_type_request_record)

lemma track_logs_alerts:
  "filter (\<lambda>r. \<not> is_brute_force r \<and> \<not> is_spray r) (snd (track_auth_failure d ip now)) = []"
  by (simp add: track_auth_failure_eq Let_def is_brute_force_simps is_spray_simps)

lemma request_record_fields:
  "map fst (extra (request_record rid request response ms)) =
     [''request_id'', ''method'', ''path'', ''status_code'', ''client_ip'', ''user_agent'',
      ''response_time_ms'', ''event_type'']"
  "dict_get (extra (request_record rid request response ms)) ''request_id'' = Some (JStr rid)"
  "dict_get (extra (request_record rid request response ms)) ''client_ip'' =
     Some (JStr (client_ip_of request))"
  by (simp_all add: request_record_def log_data_of_def Let_def)

lemma request_record_level:
  "levelname (request_record rid request response ms) \<noteq> CRITICAL"
  by (simp add: request_record_def Let_def)

lemma spray_record_level: "levelname (spray_record n) = CRITICAL"
  by (simp add: spray_record_def)

lemma track_logs_critical:
  "list_all (\<lambda>r. levelname r = CRITICAL \<and> (is_brute_force r \<or> is_spray r))
     (snd (track_auth_failure d ip now))"
  by (simp add: track_auth_failure_eq Let_def is_brute_force_simps is_spray_simps
      brute_force_record_fields spray_record_level)

lemma track_logs_at_most_one:
  "length (filter is_brute_force (snd (track_auth_failure d ip now))) \<le> 1"
  "length (filter is_spray (snd (track_auth_failure d ip now))) \<le> 1"
  by (simp_all add: track_auth_failure_eq Let_def is_brute_force_simps is_spray_simps)

text \<open>
  C3, amended. When the handler returns a response, \<^verbatim>\<open>dispatch\<close> returns that response
  with the header \<^verbatim>\<open>X-Request-ID\<close> set to the correlation identifier, and logs exactly one
  record for the request: the first record, which carries the correlation identifier, is
  not an alert and is below the level CRITICAL. The records that follow are the alerts of
  \<^verbatim>\<open>_track_auth_failure\<close>, present only for a 401 or 403: each is of level CRITICAL and is
  a brute-force or a spray record, with at most one of each.
\<close>

theorem instrumentor_outcome:
  assumes "call_next (request\<lparr>req_state_request_id := Some rid\<rparr>) = Inr response"
    and "dispatch d rid ms now request call_next = (out, d', logs)"
  shows
  "out = Inr (response\<lparr>resp_headers :=
                headers_setitem (resp_headers response) ''X-Request-ID'' rid\<rparr>) \<and>
   headers_get (headers_setitem (resp_headers response) ''X-Request-ID'' rid)
     ''X-Request-ID'' dflt = rid \<and>
   logs \<noteq> [] \<and>
   dict_get (extra (hd logs)) ''request_id'' = Some (JStr rid) \<and>
   levelname (hd logs) \<noteq> CRITICAL \<and>
   filter (\<lambda>r. \<not> is_brute_force r \<and> \<not> is_spray r) logs = [hd logs] \<and>
   tl logs = (if status_code response = 401 \<or> status_code response = 403
              then snd (track_auth_failure d (client_ip_of request) now) else []) \<and>
   list_all (\<lambda>r. levelname r = CRITICAL \<and> (is_brute_force r \<or> is_spray r)) (tl logs) \<and>
   length (filter is_brute_force (tl logs)) \<le> 1 \<and>
   length (filter is_spray (tl logs)) \<le> 1"
proof -
  have "dispatch d rid ms now request call_next =
       (Inr (response\<lparr>resp_headers := headers_setitem (resp_headers response) ''X-Request-ID'' rid\<rparr>),
        (if status_code response = 401 \<or> status_code response = 403
         then fst (track_auth_failure d (client_ip_of request) now) else d),
        request_record rid request response ms #
        (if status_code response = 401 \<or> status_code response = 403
         then snd (track_auth_failure d (client_ip_of request) now) else []))"
    using assms(1) by (rule dispatch_returns)
  with assms(2) have out: "out = Inr (response\<lparr>resp_headers :=
                   headers_setitem (resp_headers response) ''X-Request-ID'' rid\<rparr>)"
    and logs: "logs = request_record rid request response ms #
        (if status_code response = 401 \<or> status_code response = 403
         then snd (track_auth_failure d (client_ip_of request) now) else [])"
    by simp_all
  have hdr: "headers_get (headers_setitem (resp_headers response) ''X-Request-ID'' rid)
        ''X-Request-ID'' dflt = rid"
    by (simp add: headers_get_def headers_setitem_def dict_get_headers_put)
  have ne: "logs \<noteq> []" by (simp add: logs)
  have rid: "dict_get (extra (hd logs)) ''request_id'' = Some (JStr rid)"
    by (simp add: logs request_record_fields)
  have lvl: "levelname (hd logs) \<noteq> CRITICAL"
    by (simp add: logs request_record_level)
  have one: "filter (\<lambda>r. \<not> is_brute_force r \<and> \<not> is_spray r) logs = [hd logs]"
    by (simp add: logs request_record_not_alert track_logs_alerts)
  have tl: "tl logs = (if status_code response = 401 \<or> status_code response = 403
                 then snd (track_auth_failure d (client_ip_of request) now) else [])"
    by (simp add: logs)
  have crit: "list_all (\<lambda>r. levelname r = CRITICAL \<and> (is_brute_force r \<or> is_spray r)) (tl logs)"
    unfolding tl by (simp add: track_logs_critical)
  have few: "length (filter is_brute_force (tl logs)) \<le> 1"
      "length (filter is_spray (tl logs)) \<le> 1"
    unfolding tl using track_logs_at_most_one [of d "client_ip_of request" now] by auto
  from out hdr ne rid lvl one tl crit few show ?thesis by blast
qed

text \<open>
  C6, amended. The source address is the whole value of the first forwarded-for header
  when the request has one (a comma-separated list is not split), otherwise the host of
  the transport-level peer, and the word \<open>unknown\<close> when the request has no peer. This
  address is the \<open>client_ip\<close> field of the request record and the key under which a 401
  or 403 is tracked.
\<close>

theorem source_address:
  assumes "call_next (request\<lparr>req_state_request_id := Some rid\<rparr>) = Inr response"
    and "dispatch d rid ms now request call_next = (out, d', logs)"
  shows
  "client_ip_of request =
     (case dict_get (req_headers request) ''x-forwarded-for'' of
        Some v \<Rightarrow> v
      | None \<Rightarrow> (case req_client_host request of Some host \<Rightarrow> host | None \<Rightarrow> ''unknown'')) \<and>
   dict_get (extra (hd logs)) ''client_ip'' = Some (JStr (client_ip_of request)) \<and>
   (status_code response = 401 \<or> status_code response = 403 \<longrightarrow>
      d' = fst (track_auth_failure d (client_ip_of request) now) \<and>
      failures_of d' (client_ip_of request) =
        filter (in_window now) (failures_of d (client_ip_of request)) @ [now])"
proof -
  have "dispatch d rid ms now request call_next =
       (Inr (response\<lparr>resp_headers := headers_setitem (resp_headers response) ''X-Request-ID'' rid\<rparr>),
        (if status_code response = 401 \<or> status_code response = 403
         then fst (track_auth_failure d (client_ip_of request) now) else d),
        request_record rid request response ms #
        (if status_code response = 401 \<or> status_code response = 403
         then snd (track_auth_failure d (client_ip_of request) now) else []))"
    using assms(1) by (rule dispatch_returns)
  with assms(2)
  have d': "d' = (if status_code response = 401 \<or> status_code response = 403
                  then fst (track_auth_failure d (client_ip_of request) now) else d)"
    and logs: "hd logs = request_record rid request response ms"
    by auto
  show ?thesis
    by (simp add: client_ip_of_eq [symmetric] logs request_record_fields d' failures_of_track_same)
qed

lemma client_ip_of_example:
  "client_ip_of example_request = ''203.0.113.7, 10.0.0.1''"
  by (simp add: client_ip_of_eq example_request_def)

lemma track_example_fresh:
  "track_auth_failure [] ''203.0.113.7, 10.0.0.1'' 1000 = ([(''203.0.113.7, 10.0.0.1'', [1000])], [])"
  by (simp add: track_auth_failure_eq Let_def failures_of_def total_failures_of_def
      AUTH_FAILURE_THRESHOLD_IP_def AUTH_FAILURE_THRESHOLD_GLOBAL_def AUTH_FAILURE_WINDOW_def)

lemma track_example_tenth:
  "track_auth_failure nine_failures ''203.0.113.7, 10.0.0.1'' 10 =
     ([(''203.0.113.7, 10.0.0.1'', [1, 2, 3, 4, 5, 6, 7, 8, 9, 10])],
      [brute_force_record ''203.0.113.7, 10.0.0.1'' 10])"
  apply (simp add: track_auth_failure_eq Let_def failures_of_def total_failures_of_def
      nine_failures_def
      AUTH_FAILURE_THRESHOLD_IP_def AUTH_FAILURE_THRESHOLD_GLOBAL_def AUTH_FAILURE_WINDOW_def)
  apply (rule arg_cong [where f = "brute_force_record ''203.0.113.7, 10.0.0.1''"])
  apply simp
  done

text \<open>
  C3 as stated fails. The tenth 403 of a source within the window logs two records, the
  request record and the brute-force record, not exactly one.
\<close>

theorem instrumentor_counterexample:
  "snd (snd (dispatch nine_failures ''r1'' 2 10 example_request
               (\<lambda>r. Inr example_forbidden :: string + response))) =
     [request_record ''r1'' example_request example_forbidden 2,
      brute_force_record ''203.0.113.7, 10.0.0.1'' 10] \<and>
   length (snd (snd (dispatch nine_failures ''r1'' 2 10 example_request
                       (\<lambda>r. Inr example_forbidden :: string + response)))) \<noteq> 1"
proof -
  have "dispatch nine_failures ''r1'' 2 10 example_request
          (\<lambda>r. Inr example_forbidden :: string + response) =
      (Inr (example_forbidden\<lparr>resp_headers :=
              headers_setitem (resp_headers example_forbidden) ''X-Request-ID'' ''r1''\<rparr>),
       fst (track_auth_failure nine_failures (client_ip_of example_request) 10),
       request_record ''r1'' example_request example_forbidden 2 #
       snd (track_auth_failure nine_failures (client_ip_of example_request) 10))"
    by (simp add: dispatch_returns example_forbidden_def)
  then show ?thesis
    by (simp add: client_ip_of_example track_example_tenth)
qed

lemma dispatch_example_fresh:
  "dispatch [] ''r1'' 2 1000 example_request (\<lambda>r. Inr example_forbidden :: string + response) =
     (Inr (example_forbidden\<lparr>resp_headers :=
             [(''content-type'', ''application/json''), (''x-request-id'', ''r1'')]\<rparr>),
      [(''203.0.113.7, 10.0.0.1'', [1000])],
      [request_record ''r1'' example_request example_forbidden 2])"
proof -
  have "headers_setitem (resp_headers example_forbidden) ''X-Request-ID'' ''r1'' =
      [(''content-type'', ''application/json''), (''x-request-id'', ''r1'')]"
    by (simp add: headers_setitem_def lower_literals example_forbidden_def)
  then show ?thesis
    by (simp add: dispatch_returns example_forbidden_def client_ip_of_example
        track_example_fresh)
qed

theorem instrumentor_outcome_witness:
  "dispatch [] ''r1'' 2 1000 example_request (\<lambda>r. Inr example_forbidden :: string + response) =
     (Inr (example_forbidden\<lparr>resp_headers :=
             [(''content-type'', ''application/json''), (''x-request-id'', ''r1'')]\<rparr>),
      [(''203.0.113.7, 10.0.0.1'', [1000])],
      [request_record ''r1'' example_request example_forbidden 2]) \<and>
   dict_get (extra (request_record ''r1'' example_request example_forbidden 2)) ''request_id'' =
     Some (JStr ''r1'') \<and>
   levelname (request_record ''r1'' example_request example_forbidden 2) \<noteq> CRITICAL"
proof -
  have call: "(\<lambda>r. Inr example_forbidden :: string + response)
      (example_request\<lparr>req_state_request_id := Some ''r1''\<rparr>) = Inr example_forbidden"
    by simp
  note io = instrumentor_outcome [OF call dispatch_example_fresh]
  from io
  have "dict_get (extra (request_record ''r1'' example_request example_forbidden 2)) ''request_id'' =
     Some (JStr ''r1'')"
    by simp
  moreover from io
  have "levelname (request_record ''r1'' example_request example_forbidden 2) \<noteq> CRITICAL"
    by simp
  ultimately show ?thesis
    using dispatch_example_fresh by simp
qed

text \<open>
  C6 as stated fails. For the forwarded-for value \<open>203.0.113.7, 10.0.0.1\<close> the source
  address is the whole value, not its first element, and the failure is tracked under
  the whole value.
\<close>

theorem source_address_counterexample:
  "dict_get (req_headers example_request) ''x-forwarded-for'' = Some ''203.0.113.7, 10.0.0.1'' \<and>
   spec_first_value ''203.0.113.7, 10.0.0.1'' = ''203.0.113.7'' \<and>
   client_ip_of example_request = ''203.0.113.7, 10.0.0.1'' \<and>
   client_ip_of example_request \<noteq> spec_first_value ''203.0.113.7, 10.0.0.1'' \<and>
   fst (snd (dispatch [] ''r1'' 2 1000 example_request
               (\<lambda>r. Inr example_forbidden :: string + response))) =
     [(''203.0.113.7, 10.0.0.1'', [1000])]"
  by (simp add: client_ip_of_example dispatch_example_fresh spec_first_value_def)
     (simp add: example_request_def)

theorem source_address_witness:
  "client_ip_of example_request = ''203.0.113.7, 10.0.0.1'' \<and>
   dict_get (extra (request_record ''r1'' example_request example_forbidden 2)) ''client_ip'' =
     Some (JStr ''203.0.113.7, 10.0.0.1'')"
proof -
  have call: "(\<lambda>r. Inr example_forbidden :: string + response)
      (example_request\<lparr>req_state_request_id := Some ''r1''\<rparr>) = Inr example_forbidden"
    by simp
  have hdr: "dict_get (req_headers example_request) ''x-forwarded-for'' =
      Some ''203.0.113.7, 10.0.0.1''"
    by (simp add: example_request_def)
  note sa = source_address [OF call dispatch_example_fresh]
  from sa [THEN conjunct1]
  have a: "client_ip_of example_request = ''203.0.113.7, 10.0.0.1''"
    by (simp add: hdr)
  from sa [THEN conjunct2, THEN conjunct1]
  have b: "dict_get (extra (request_record ''r1'' example_request example_forbidden 2))
        ''client_ip'' = Some (JStr ''203.0.113.7, 10.0.0.1'')"
    by (simp add: a)
  from a b show ?thesis by simp
qed

theorem status_classification_witness:
  "levelname (request_record ''r1'' example_request example_forbidden 2) = WARNING \<and>
   message (request_record ''r1'' example_request example_forbidden 2) =
     ''Authentication failure'' \<and>
   event_type (request_record ''r1'' example_request example_forbidden 2) =
     Some (JStr ''auth_failure'') \<and>
   fst (track_auth_failure [] ''203.0.113.7, 10.0.0.1'' 1000) =
     [(''203.0.113.7, 10.0.0.1'', [1000])]"
proof -
  have call: "(\<lambda>r. Inr example_forbidden :: string + response)
      (example_request\<lparr>req_state_request_id := Some ''r1''\<rparr>) = Inr example_forbidden"
    by simp
  have auth: "status_code example_forbidden = 403"
    by (simp add: example_forbidden_def)
  from status_classification [OF call dispatch_example_fresh] auth show ?thesis
    by (simp add: client_ip_of_example)
qed

lemma dispatch_outcome_independent:
  "fst (dispatch d1 rid ms now1 request call_next) =
   fst (dispatch d2 rid ms now2 request call_next)"
proof (cases "call_next (request\<lparr>req_state_request_id := Some rid\<rparr>)")
  case (Inl e)
  then show ?thesis by (simp add: dispatch_raises)
next
  case (Inr response)
  then show ?thesis by (simp add: dispatch_returns)
qed

lemma brute_force_again:
  assumes "filter is_brute_force (snd (track_auth_failure d ip now)) \<noteq> []"
    and "\<forall>t \<in> set (failures_of (fst (track_auth_failure d ip now)) ip). in_window now' t"
  shows "filter is_brute_force
           (snd (track_auth_failure (fst (track_auth_failure d ip now)) ip now')) \<noteq> []"
proof -
  let ?d1 = "fst (track_auth_failure d ip now)"
  from assms(1) have "AUTH_FAILURE_THRESHOLD_IP \<le>
      length (filter (in_window now) (failures_of d ip)) + 1"
    by (simp add: brute_force_of_track split: if_splits)
  then have "AUTH_FAILURE_THRESHOLD_IP \<le> length (failures_of ?d1 ip)"
    by (simp add: failures_of_track_same)
  moreover from assms(2) have "filter (in_window now') (failures_of ?d1 ip) = failures_of ?d1 ip"
    by (simp add: filter_id_conv)
  ultimately show ?thesis
    by (simp add: brute_force_of_track [of ?d1])
qed

lemma both_alerts:
  "snd (track_auth_failure
      [(''10.0.0.2'', [1, 2, 3, 4, 5, 6, 7, 8, 9, 10, 11, 12, 13, 14, 15, 16, 17, 18, 19])]
      ''10.0.0.2'' 20) = [brute_force_record ''10.0.0.2'' 20, spray_record 20]"
proof -
  have n: "Suc (Suc (Suc (Suc (Suc (Suc (Suc (Suc (Suc (Suc (Suc (Suc (Suc (Suc (Suc (Suc
      (Suc (Suc (Suc (Suc 0))))))))))))))))))) = 20"
    by simp
  show ?thesis
    by (simp add: track_auth_failure_eq Let_def failures_of_def
      AUTH_FAILURE_WINDOW_def AUTH_FAILURE_THRESHOLD_GLOBAL_def AUTH_FAILURE_THRESHOLD_IP_def
      total_failures_of_def n)
qed

text \<open>
  C8. The outcome that \<^verbatim>\<open>dispatch\<close> returns does not depend on the failure dictionary or
  on the clock reading of the tracker: it is the response of the handler with the
  correlation header set, whether or not an alert is logged. The alerts of a call are
  determined by the two threshold comparisons on the dictionary after the call, with no
  other state: a brute-force record when the sequence of the source has reached the
  per-source threshold, then a spray record when the total has reached the aggregate
  threshold. So a call that follows an alerting call, with the held timestamps still in
  the window, logs the brute-force record again; and one call can log both records.
\<close>

theorem alerts_observational:
  "fst (dispatch d1 rid ms now1 request call_next) =
     fst (dispatch d2 rid ms now2 request call_next) \<and>
   (call_next (request\<lparr>req_state_request_id := Some rid\<rparr>) = Inr response \<longrightarrow>
      fst (dispatch d1 rid ms now1 request call_next) =
        Inr (response\<lparr>resp_headers :=
               headers_setitem (resp_headers response) ''X-Request-ID'' rid\<rparr>)) \<and>
   snd (track_auth_failure d ip now) =
     (if AUTH_FAILURE_THRESHOLD_IP \<le> length (failures_of (fst (track_auth_failure d ip now)) ip)
      then [brute_force_record ip (length (failures_of (fst (track_auth_failure d ip now)) ip))]
      else []) @
     (if AUTH_FAILURE_THRESHOLD_GLOBAL \<le>
           total_failures_of (fst (track_auth_failure d ip now)) (now - of_int AUTH_FAILURE_WINDOW)
      then [spray_record
              (total_failures_of (fst (track_auth_failure d ip now))
                 (now - of_int AUTH_FAILURE_WINDOW))]
      else []) \<and>
   (filter is_brute_force (snd (track_auth_failure d ip now)) \<noteq> [] \<and>
    (\<forall>t \<in> set (failures_of (fst (track_auth_failure d ip now)) ip). in_window now' t) \<longrightarrow>
      filter is_brute_force
        (snd (track_auth_failure (fst (track_auth_failure d ip now)) ip now')) \<noteq> []) \<and>
   snd (track_auth_failure
      [(''10.0.0.2'', [1, 2, 3, 4, 5, 6, 7, 8, 9, 10, 11, 12, 13, 14, 15, 16, 17, 18, 19])]
      ''10.0.0.2'' 20) = [brute_force_record ''10.0.0.2'' 20, spray_record 20]"
proof (intro conjI impI)
  show "fst (dispatch d1 rid ms now1 request call_next) =
     fst (dispatch d2 rid ms now2 request call_next)"
    by (rule dispatch_outcome_independent)
  show "call_next (request\<lparr>req_state_request_id := Some rid\<rparr>) = Inr response \<Longrightarrow>
      fst (dispatch d1 rid ms now1 request call_next) =
        Inr (response\<lparr>resp_headers :=
               headers_setitem (resp_headers response) ''X-Request-ID'' rid\<rparr>)"
    by (simp add: dispatch_returns)
  show "snd (track_auth_failure d ip now) =
     (if AUTH_FAILURE_THRESHOLD_IP \<le> length (failures_of (fst (track_auth_failure d ip now)) ip)
      then [brute_force_record ip (length (failures_of (fst (track_auth_failure d ip now)) ip))]
      else []) @
     (if AUTH_FAILURE_THRESHOLD_GLOBAL \<le>
           total_failures_of (fst (track_auth_failure d ip now)) (now - of_int AUTH_FAILURE_WINDOW)
      then [spray_record
              (total_failures_of (fst (track_auth_failure d ip now))
                 (now - of_int AUTH_FAILURE_WINDOW))]
      else [])"
    by (simp add: failures_of_track_same)
       (simp add: track_auth_failure_eq Let_def in_window_eq)
  show "filter is_brute_force
        (snd (track_auth_failure (fst (track_auth_failure d ip now)) ip now')) \<noteq> []"
    if "filter is_brute_force (snd (track_auth_failure d ip now)) \<noteq> [] \<and>
      (\<forall>t \<in> set (failures_of (fst (track_auth_failure d ip now)) ip). in_window now' t)"
    using that by (intro brute_force_again) simp_all
  show "snd (track_auth_failure
      [(''10.0.0.2'', [1, 2, 3, 4, 5, 6, 7, 8, 9, 10, 11, 12, 13, 14, 15, 16, 17, 18, 19])]
      ''10.0.0.2'' 20) = [brute_force_record ''10.0.0.2'' 20, spray_record 20]"
    by (rule both_alerts)
qed

theorem alerts_observational_witness:
  "fst (dispatch [] ''r1'' 2 1000 example_request
          (\<lambda>r. Inr example_forbidden :: string + response)) =
     fst (dispatch nine_failures ''r1'' 2 10 example_request (\<lambda>r. Inr example_forbidden)) \<and>
   snd (track_auth_failure nine_failures ''203.0.113.7, 10.0.0.1'' 10) =
     [brute_force_record ''203.0.113.7, 10.0.0.1'' 10] \<and>
   filter is_brute_force
     (snd (track_auth_failure [(''203.0.113.7, 10.0.0.1'', [1, 2, 3, 4, 5, 6, 7, 8, 9, 10])]
             ''203.0.113.7, 10.0.0.1'' 11)) \<noteq> []"
proof -
  let ?ip = "''203.0.113.7, 10.0.0.1''"
  let ?call = "\<lambda>r::request. Inr example_forbidden :: string + response"
  note ao = alerts_observational [where ?d1.0 = "[]" and ?d2.0 = nine_failures and rid = "''r1''"
      and ms = 2 and ?now1.0 = 1000 and ?now2.0 = 10 and request = example_request
      and call_next = ?call and response = example_forbidden
      and d = nine_failures and ip = ?ip and now = 10 and now' = 11]
  have tenth: "snd (track_auth_failure nine_failures ?ip 10) = [brute_force_record ?ip 10]"
    and state: "fst (track_auth_failure nine_failures ?ip 10) =
      [(?ip, [1, 2, 3, 4, 5, 6, 7, 8, 9, 10])]"
    by (simp_all add: track_example_tenth)
  have emitted: "filter is_brute_force (snd (track_auth_failure nine_failures ?ip 10)) \<noteq> []"
    by (simp add: tenth is_brute_force_simps)
  have held: "\<forall>t \<in> set (failures_of (fst (track_auth_failure nine_failures ?ip 10)) ?ip).
      in_window 11 t"
    by (simp add: state failures_of_def in_window_def AUTH_FAILURE_WINDOW_def)
  from ao [THEN conjunct1]
  have same: "fst (dispatch [] ''r1'' 2 1000 example_request ?call) =
      fst (dispatch nine_failures ''r1'' 2 10 example_request ?call)" .
  from ao [THEN conjunct2, THEN conjunct2, THEN conjunct2, THEN conjunct1] emitted held
  have again: "filter is_brute_force
     (snd (track_auth_failure (fst (track_auth_failure nine_failures ?ip 10)) ?ip 11)) \<noteq> []"
    by blast
  from same tenth again show ?thesis
    by (simp add: state)
qed

end
